theory Spec2Isabelle
  imports Main
begin

section \<open>The workload client of keycloak-spiffe (workload/main.go)\<close>

text \<open>
  The program is one \<open>main\<close> function. It reads the process environment, talks to three
  collaborators (the SPIRE Workload API through go-spiffe, the process environment, and
  a \<open>curl\<close> child process) and prints. The model makes this explicit: \<open>main\<close> takes the
  environment and the answers of the collaborators, and returns the ordered list of the
  calls it made together with the exit status of the process.
\<close>

subsection \<open>Process environment\<close>

type_synonym environ = "string \<rightharpoonup> string"

text \<open>\<open>os.Getenv\<close>: the value of the variable, the empty string when it is not set.\<close>

definition Getenv :: "environ \<Rightarrow> string \<Rightarrow> string" where
  "Getenv env key = (case env key of None \<Rightarrow> [] | Some v \<Rightarrow> v)"

subsection \<open>Values passed to the libraries\<close>

text \<open>\<open>time.Duration\<close> counts nanoseconds.\<close>

type_synonym duration = int

definition Second :: duration where
  "Second = 1000000000"

text \<open>
  A \<open>context.Context\<close> as far as this program builds one: the background context, or a
  context derived from a parent with a timeout.
\<close>

datatype Context = Background | WithTimeout Context duration

datatype client_option = WithAddr string

datatype source_option = WithClientOptions "client_option list"

text \<open>
  \<open>jwtsvid.Params\<close> of go-spiffe v2 has the three fields below; \<open>Subject\<close> is a
  \<open>spiffeid.ID\<close>, written here as its string form, whose zero value is empty.
\<close>

record Params =
  Audience :: string
  ExtraAudiences :: "string list"
  Subject :: string

datatype SVID = SVID (token: string)

text \<open>\<open>svid.Marshal()\<close> returns the serialized token the SVID was parsed from.\<close>

definition Marshal :: "SVID \<Rightarrow> string" where
  "Marshal svid = token svid"

datatype error = Error string

text \<open>
  \<open>exec.Cmd\<close>: \<open>exec.Command\<close> fills \<open>Args\<close> (the program name first) and leaves the
  command's context unset; only \<open>exec.CommandContext\<close> would set it. The field
  \<open>Path\<close>, which \<open>exec.Command\<close> resolves by looking the name up in the file system,
  is left out: a failed lookup shows as the error of running the command.
\<close>

record Cmd =
  Args :: "string list"
  ctx :: "Context option"

definition Command :: "string \<Rightarrow> string list \<Rightarrow> Cmd" where
  "Command name arg = \<lparr>Args = name # arg, ctx = None\<rparr>"

subsection \<open>Collaborators and observable calls\<close>

text \<open>
  The answers of the outside world. \<open>newJWTSource\<close> answers \<open>None\<close> on success (the
  source itself carries no data the program reads), \<open>combinedOutput\<close> answers the bytes
  the child process wrote and its error, if any.
\<close>

record world =
  newJWTSource :: "Context \<Rightarrow> source_option list \<Rightarrow> error option"
  fetchJWTSVID :: "Context \<Rightarrow> Params \<Rightarrow> error + SVID"
  combinedOutput :: "Cmd \<Rightarrow> string \<times> error option"

datatype fmt_arg = ArgError error | ArgString string

datatype event =
    NewJWTSource Context "source_option list"
  | FetchJWTSVID Context Params
  | Printf string "fmt_arg list"
  | Setenv string string
  | CombinedOutput Cmd
  | Fatalf string "fmt_arg list"
  | SourceClose
  | Cancel

subsection \<open>Constants and literals of main.go\<close>

definition socketPath :: string where
  "socketPath = ''unix:///opt/spire/sockets/agent.sock''"

definition defaultAudience :: string where
  "defaultAudience = ''https://localhost.idyatech.fr:8443/auth/realms/spiffe''"

definition tokenEndpoint :: string where
  "tokenEndpoint = ''https://keycloak:8443/auth/realms/spiffe/protocol/openid-connect/token''"

text \<open>The messages are French; their accented letters are two UTF-8 bytes each.\<close>

definition msgConnect :: string where
  "msgConnect = ''Impossible de se connecter '' @ [CHR 0xC3, CHR 0xA0] @ '' SPIRE: %w''"

definition msgFetch :: string where
  "msgFetch = ''Erreur lors de la r'' @ [CHR 0xC3, CHR 0xA9] @ ''cup'' @ [CHR 0xC3, CHR 0xA9]
     @ ''ration du JWT-SVID: %v''"

definition msgFetched :: string where
  "msgFetched = ''JWT-SVID r'' @ [CHR 0xC3, CHR 0xA9] @ ''cup'' @ [CHR 0xC3, CHR 0xA9]
     @ ''r'' @ [CHR 0xC3, CHR 0xA9] @ '' avec succ'' @ [CHR 0xC3, CHR 0xA8] @ ''s !''
     @ [CHR 0x0A, CHR 0x0A] @ ''%s'' @ [CHR 0x0A]"

definition msgExchange :: string where
  "msgExchange = ''Erreur lors de l'' @ [CHR 0x27] @ ''appel '' @ [CHR 0xC3, CHR 0xA0]
     @ '' Keycloak: %v'' @ [CHR 0x0A] @ ''Output: %s''"

definition msgResponse :: string where
  "msgResponse = ''R'' @ [CHR 0xC3, CHR 0xA9] @ ''ponse de Keycloak:'' @ [CHR 0x0A] @ ''%s''
     @ [CHR 0x0A]"

definition writeOut :: string where
  "writeOut = [CHR 0x0A] @ ''HTTP Status: %{http_code}'' @ [CHR 0x0A]"

subsection \<open>main\<close>

text \<open>Step 2 of \<open>main\<close>: the audience is the variable \<open>AUDIENCE\<close>, or the default if that is empty.\<close>

definition audienceOf :: "environ \<Rightarrow> string" where
  "audienceOf env =
     (let audience = Getenv env ''AUDIENCE''
      in if audience = [] then defaultAudience else audience)"

text \<open>The \<open>curl\<close> command of the token exchange; \<open>%s\<close> of a string is the string itself.\<close>

definition exchangeCmd :: "SVID \<Rightarrow> Cmd" where
  "exchangeCmd svid =
     Command ''curl''
       [''-X'', ''POST'',
        ''-H'', ''Content-Type:application/x-www-form-urlencoded'',
        ''-d'', ''grant_type=client_credentials'',
        ''-d'', ''client_assertion_type=urn:ietf:params:oauth:client-assertion-type:jwt-spiffe'',
        ''-d'', ''client_assertion='' @ Marshal svid,
        ''-k'',
        ''-v'',
        ''-w'', writeOut,
        tokenEndpoint]"

text \<open>
  \<open>log.Fatalf\<close> prints and exits with status 1 without running the deferred calls; a
  normal return runs them last-in first-out (\<open>source.Close()\<close>, then \<open>cancel()\<close>) and
  exits with status 0. The error of \<open>os.Setenv\<close> is assigned and never read.
\<close>

definition main :: "environ \<Rightarrow> world \<Rightarrow> event list \<times> nat" where
  "main env w =
     (let c = WithTimeout Background (100 * Second);
          clientOptions = WithClientOptions [WithAddr socketPath];
          t1 = [NewJWTSource c [clientOptions]]
      in case newJWTSource w c [clientOptions] of
           Some err \<Rightarrow> (t1 @ [Fatalf msgConnect [ArgError err]], 1)
         | None \<Rightarrow>
            (let audience = audienceOf env;
                 params = \<lparr>Audience = audience, ExtraAudiences = [], Subject = []\<rparr>;
                 t2 = t1 @ [FetchJWTSVID c params]
             in case fetchJWTSVID w c params of
                  Inl err \<Rightarrow> (t2 @ [Fatalf msgFetch [ArgError err]], 1)
                | Inr svid \<Rightarrow>
                   (let t3 = t2 @ [Printf msgFetched [ArgString (Marshal svid)],
                                   Setenv ''JWT_SVID'' (Marshal svid)];
                        cmd = exchangeCmd svid;
                        t4 = t3 @ [CombinedOutput cmd]
                    in case combinedOutput w cmd of
                         (output, Some err) \<Rightarrow>
                           (t4 @ [Fatalf msgExchange [ArgError err, ArgString output]], 1)
                       | (output, None) \<Rightarrow>
                           (t4 @ [Printf msgResponse [ArgString output], SourceClose, Cancel],
                            0))))"

subsection \<open>Reading a run\<close>

text \<open>The calls of a run, and its calls of one kind.\<close>

definition calls :: "environ \<Rightarrow> world \<Rightarrow> event list" where
  "calls env w = fst (main env w)"

fun isFetch :: "event \<Rightarrow> bool" where
  "isFetch (FetchJWTSVID _ _) = True"
| "isFetch _ = False"

fun isExchange :: "event \<Rightarrow> bool" where
  "isExchange (CombinedOutput _) = True"
| "isExchange _ = False"

fun isConnect :: "event \<Rightarrow> bool" where
  "isConnect (NewJWTSource _ _) = True"
| "isConnect _ = False"

fun isSetenv :: "event \<Rightarrow> bool" where
  "isSetenv (Setenv _ _) = True"
| "isSetenv _ = False"

text \<open>The calls that go over the network, and the deadline each one was given.\<close>

fun networkFacing :: "event \<Rightarrow> bool" where
  "networkFacing (NewJWTSource _ _) = True"
| "networkFacing (FetchJWTSVID _ _) = True"
| "networkFacing (CombinedOutput _) = True"
| "networkFacing _ = False"

fun timeoutOf :: "Context \<Rightarrow> duration option" where
  "timeoutOf Background = None"
| "timeoutOf (WithTimeout parent d) =
     (case timeoutOf parent of None \<Rightarrow> Some d | Some d' \<Rightarrow> Some (min d d'))"

fun deadlineOf :: "event \<Rightarrow> duration option" where
  "deadlineOf (NewJWTSource c _) = timeoutOf c"
| "deadlineOf (FetchJWTSVID c _) = timeoutOf c"
| "deadlineOf (CombinedOutput cmd) = (case ctx cmd of None \<Rightarrow> None | Some c \<Rightarrow> timeoutOf c)"
| "deadlineOf _ = None"

fun exchangeArgs :: "event \<Rightarrow> string list" where
  "exchangeArgs (CombinedOutput cmd) = Args cmd"
| "exchangeArgs _ = []"

text \<open>A world in which every collaborator succeeds, handing out the token \<open>tok\<close>.\<close>

definition worldOk :: "string \<Rightarrow> world" where
  "worldOk tok =
     \<lparr>newJWTSource = (\<lambda>c opts. None),
      fetchJWTSVID = (\<lambda>c p. Inr (SVID tok)),
      combinedOutput = (\<lambda>cmd. (''{}'', None))\<rparr>"

text \<open>A world in which the Workload API refuses to issue a document.\<close>

definition worldDenied :: world where
  "worldDenied =
     \<lparr>newJWTSource = (\<lambda>c opts. None),
      fetchJWTSVID = (\<lambda>c p. Inl (Error ''PermissionDenied'')),
      combinedOutput = (\<lambda>cmd. (''{}'', None))\<rparr>"

text \<open>
  Modelled from the spec: the address resolution of the go-spiffe client, which is a
  dependency and not part of the repository. As the comment in \<open>main.go\<close> has it, a
  source uses the value of \<open>SPIFFE_ENDPOINT_SOCKET\<close> by default, and a client option
  sets the socket path instead: the client starts with an empty address, each
  \<open>WithAddr\<close> option overwrites it, and only an address still empty is looked up in the
  environment (a variable that is not set leaves the client without an address).
\<close>

definition clientOptionsOf :: "source_option list \<Rightarrow> client_option list" where
  "clientOptionsOf opts = concat (map (\<lambda>opt. case opt of WithClientOptions cs \<Rightarrow> cs) opts)"

definition configuredAddress :: "client_option list \<Rightarrow> string" where
  "configuredAddress cs = foldl (\<lambda>address opt. case opt of WithAddr a \<Rightarrow> a) [] cs"

definition endpointAddress :: "environ \<Rightarrow> source_option list \<Rightarrow> string option" where
  "endpointAddress env opts =
     (let address = configuredAddress (clientOptionsOf opts)
      in if address = [] then env ''SPIFFE_ENDPOINT_SOCKET'' else Some address)"

fun connectAddress :: "environ \<Rightarrow> event \<Rightarrow> string option" where
  "connectAddress env (NewJWTSource c opts) = endpointAddress env opts"
| "connectAddress env _ = None"

text \<open>The context and the options that \<open>main\<close> builds before its first call.\<close>

abbreviation mainCtx :: Context where
  "mainCtx \<equiv> WithTimeout Background (100 * Second)"

abbreviation mainOptions :: "source_option list" where
  "mainOptions \<equiv> [WithClientOptions [WithAddr socketPath]]"

section \<open>Properties\<close>

subsection \<open>The shape of a run\<close>

text \<open>A run takes one of four paths, decided by the answers of the collaborators.\<close>

lemma main_connect_error:
  assumes "newJWTSource w mainCtx mainOptions = Some err"
  shows "main env w = ([NewJWTSource mainCtx mainOptions, Fatalf msgConnect [ArgError err]], 1)"
  using assms by (simp add: main_def Let_def)

lemma main_fetch_error:
  assumes "newJWTSource w mainCtx mainOptions = None"
    and "fetchJWTSVID w mainCtx \<lparr>Audience = audienceOf env, ExtraAudiences = [], Subject = []\<rparr>
           = Inl err"
  shows "main env w =
           ([NewJWTSource mainCtx mainOptions,
             FetchJWTSVID mainCtx \<lparr>Audience = audienceOf env, ExtraAudiences = [], Subject = []\<rparr>,
             Fatalf msgFetch [ArgError err]], 1)"
  using assms by (simp add: main_def Let_def)

lemma main_fetched:
  assumes "newJWTSource w mainCtx mainOptions = None"
    and "fetchJWTSVID w mainCtx \<lparr>Audience = audienceOf env, ExtraAudiences = [], Subject = []\<rparr>
           = Inr svid"
  shows "calls env w =
           [NewJWTSource mainCtx mainOptions,
            FetchJWTSVID mainCtx \<lparr>Audience = audienceOf env, ExtraAudiences = [], Subject = []\<rparr>,
            Printf msgFetched [ArgString (Marshal svid)],
            Setenv ''JWT_SVID'' (Marshal svid),
            CombinedOutput (exchangeCmd svid)]
           @ (case combinedOutput w (exchangeCmd svid) of
                (output, Some err) \<Rightarrow> [Fatalf msgExchange [ArgError err, ArgString output]]
              | (output, None) \<Rightarrow> [Printf msgResponse [ArgString output], SourceClose, Cancel])"
  using assms by (simp add: calls_def main_def Let_def split: prod.splits option.splits)

lemma exchange_is_exchangeCmd:
  assumes "CombinedOutput cmd \<in> set (calls env w)"
  shows "\<exists>svid. fetchJWTSVID w mainCtx
                  \<lparr>Audience = audienceOf env, ExtraAudiences = [], Subject = []\<rparr> = Inr svid
               \<and> cmd = exchangeCmd svid"
  using assms
  by (auto simp: calls_def main_def Let_def split: option.splits sum.splits prod.splits)

lemma fetch_is_audience_request:
  assumes "FetchJWTSVID c p \<in> set (calls env w)"
  shows "c = mainCtx \<and> p = \<lparr>Audience = audienceOf env, ExtraAudiences = [], Subject = []\<rparr>"
  using assms
  by (auto simp: calls_def main_def Let_def split: option.splits sum.splits prod.splits)

lemma fetches_of_run:
  "filter isFetch (calls env w) =
     (case newJWTSource w mainCtx mainOptions of
        Some err \<Rightarrow> []
      | None \<Rightarrow> [FetchJWTSVID mainCtx
                   \<lparr>Audience = audienceOf env, ExtraAudiences = [], Subject = []\<rparr>])"
  by (simp add: calls_def main_def Let_def split: option.splits sum.splits prod.splits)

lemma exchanges_of_run:
  assumes "newJWTSource w mainCtx mainOptions = None"
  shows "filter isExchange (calls env w) =
     (case fetchJWTSVID w mainCtx
             \<lparr>Audience = audienceOf env, ExtraAudiences = [], Subject = []\<rparr> of
        Inl err \<Rightarrow> []
      | Inr svid \<Rightarrow> [CombinedOutput (exchangeCmd svid)])"
  using assms
  by (simp add: calls_def main_def Let_def split: option.splits sum.splits prod.splits)

lemma calls_worldOk:
  "calls env (worldOk tok) =
     [NewJWTSource mainCtx mainOptions,
      FetchJWTSVID mainCtx \<lparr>Audience = audienceOf env, ExtraAudiences = [], Subject = []\<rparr>,
      Printf msgFetched [ArgString tok],
      Setenv ''JWT_SVID'' tok,
      CombinedOutput (exchangeCmd (SVID tok)),
      Printf msgResponse [ArgString ''{}''], SourceClose, Cancel]"
  by (simp add: calls_def main_def Let_def worldOk_def Marshal_def)

lemma audienceOf_unset: "audienceOf Map.empty = defaultAudience"
  by (simp add: audienceOf_def Getenv_def)

lemma audienceOf_set: "v \<noteq> [] \<Longrightarrow> audienceOf [''AUDIENCE'' \<mapsto> v] = v"
  by (simp add: audienceOf_def Getenv_def)

lemma Args_exchangeCmd:
  "Args (exchangeCmd svid) =
     [''curl'', ''-X'', ''POST'',
      ''-H'', ''Content-Type:application/x-www-form-urlencoded'',
      ''-d'', ''grant_type=client_credentials'',
      ''-d'', ''client_assertion_type=urn:ietf:params:oauth:client-assertion-type:jwt-spiffe'',
      ''-d'', ''client_assertion='' @ Marshal svid,
      ''-k'', ''-v'', ''-w'', writeOut, tokenEndpoint]"
  by (simp add: exchangeCmd_def Command_def)

lemma exchange_ctx_unset:
  assumes "CombinedOutput cmd \<in> set (calls env w)"
  shows "ctx cmd = None"
  using exchange_is_exchangeCmd [OF assms] by (auto simp: exchangeCmd_def Command_def)

text \<open>Left to itself, the client model does read the socket address from the environment.\<close>

lemma endpointAddress_default: "endpointAddress env [] = env ''SPIFFE_ENDPOINT_SOCKET''"
  by (simp add: endpointAddress_def configuredAddress_def clientOptionsOf_def)

subsection \<open>The token exchange\<close>

text \<open>
  C4. Whenever a run reaches the token exchange, the command it runs is \<open>curl\<close> with the
  form fields \<open>grant_type=client_credentials\<close>,
  \<open>client_assertion_type=urn:ietf:params:oauth:client-assertion-type:jwt-spiffe\<close> and
  \<open>client_assertion=\<close> followed by the serialized document that the fetch of this very
  run returned. Nothing else in the argument list varies: the environment has no part in it.
\<close>

theorem exchange_request_fixed_fields:
  assumes "CombinedOutput cmd \<in> set (calls env w)"
  shows "\<exists>svid.
           fetchJWTSVID w mainCtx
             \<lparr>Audience = audienceOf env, ExtraAudiences = [], Subject = []\<rparr> = Inr svid
         \<and> Args cmd =
             [''curl'', ''-X'', ''POST'',
              ''-H'', ''Content-Type:application/x-www-form-urlencoded'',
              ''-d'', ''grant_type=client_credentials'',
              ''-d'',
              ''client_assertion_type=urn:ietf:params:oauth:client-assertion-type:jwt-spiffe'',
              ''-d'', ''client_assertion='' @ Marshal svid,
              ''-k'', ''-v'', ''-w'', writeOut,
              ''https://keycloak:8443/auth/realms/spiffe/protocol/openid-connect/token'']"
proof -
  from exchange_is_exchangeCmd [OF assms] obtain svid where
    f: "fetchJWTSVID w mainCtx
          \<lparr>Audience = audienceOf env, ExtraAudiences = [], Subject = []\<rparr> = Inr svid"
    and c: "cmd = exchangeCmd svid"
    by blast
  have "Args cmd =
             [''curl'', ''-X'', ''POST'',
              ''-H'', ''Content-Type:application/x-www-form-urlencoded'',
              ''-d'', ''grant_type=client_credentials'',
              ''-d'',
              ''client_assertion_type=urn:ietf:params:oauth:client-assertion-type:jwt-spiffe'',
              ''-d'', ''client_assertion='' @ Marshal svid,
              ''-k'', ''-v'', ''-w'', writeOut,
              ''https://keycloak:8443/auth/realms/spiffe/protocol/openid-connect/token'']"
    using c by (simp add: Args_exchangeCmd tokenEndpoint_def)
  with f show ?thesis
    by blast
qed

theorem exchange_request_fixed_fields_witness:
  "CombinedOutput (exchangeCmd (SVID ''eyJ.eyJ.sig''))
     \<in> set (calls [''AUDIENCE'' \<mapsto> ''https://kc.example.org/realms/spiffe'']
                 (worldOk ''eyJ.eyJ.sig''))
   \<and> Args (exchangeCmd (SVID ''eyJ.eyJ.sig'')) ! 6 = ''grant_type=client_credentials''
   \<and> Args (exchangeCmd (SVID ''eyJ.eyJ.sig'')) ! 8 =
       ''client_assertion_type=urn:ietf:params:oauth:client-assertion-type:jwt-spiffe''
   \<and> Args (exchangeCmd (SVID ''eyJ.eyJ.sig'')) ! 10 = ''client_assertion=eyJ.eyJ.sig''"
proof -
  have h: "CombinedOutput (exchangeCmd (SVID ''eyJ.eyJ.sig''))
     \<in> set (calls [''AUDIENCE'' \<mapsto> ''https://kc.example.org/realms/spiffe'']
                 (worldOk ''eyJ.eyJ.sig''))"
    by (simp add: calls_worldOk)
  from exchange_request_fixed_fields [OF h] obtain svid where
    f: "fetchJWTSVID (worldOk ''eyJ.eyJ.sig'') mainCtx
          \<lparr>Audience = audienceOf [''AUDIENCE'' \<mapsto> ''https://kc.example.org/realms/spiffe''],
             ExtraAudiences = [], Subject = []\<rparr> = Inr svid"
    and a: "Args (exchangeCmd (SVID ''eyJ.eyJ.sig'')) =
             [''curl'', ''-X'', ''POST'',
              ''-H'', ''Content-Type:application/x-www-form-urlencoded'',
              ''-d'', ''grant_type=client_credentials'',
              ''-d'',
              ''client_assertion_type=urn:ietf:params:oauth:client-assertion-type:jwt-spiffe'',
              ''-d'', ''client_assertion='' @ Marshal svid,
              ''-k'', ''-v'', ''-w'', writeOut,
              ''https://keycloak:8443/auth/realms/spiffe/protocol/openid-connect/token'']"
    by blast
  from f have "svid = SVID ''eyJ.eyJ.sig''"
    by (simp add: worldOk_def)
  with a h show ?thesis
    by (simp add: Marshal_def)
qed

text \<open>
  C10. Whenever a run reaches the token exchange, \<open>-k\<close> is among the arguments of
  \<open>curl\<close>. It stands at position 11 of 16, right after the last \<open>-d\<close> option (position 9)
  and that option's value, so it is read as an option and not as the value of one:
  no run validates the certificate of the token endpoint.
\<close>

theorem exchange_always_insecure:
  assumes "CombinedOutput cmd \<in> set (calls env w)"
  shows "''-k'' \<in> set (Args cmd) \<and> length (Args cmd) = 16
         \<and> Args cmd ! 9 = ''-d'' \<and> Args cmd ! 11 = ''-k''"
proof -
  from exchange_is_exchangeCmd [OF assms] obtain svid where "cmd = exchangeCmd svid"
    by blast
  then show ?thesis
    by (simp add: Args_exchangeCmd)
qed

theorem exchange_always_insecure_witness:
  "CombinedOutput (exchangeCmd (SVID ''tok'')) \<in> set (calls Map.empty (worldOk ''tok''))
   \<and> ''-k'' \<in> set (Args (exchangeCmd (SVID ''tok'')))
   \<and> Args (exchangeCmd (SVID ''tok'')) ! 11 = ''-k''"
proof -
  have h: "CombinedOutput (exchangeCmd (SVID ''tok'')) \<in> set (calls Map.empty (worldOk ''tok''))"
    by (simp add: calls_worldOk)
  from exchange_always_insecure [OF h] h show ?thesis
    by simp
qed

subsection \<open>Deadlines\<close>

text \<open>
  C5. Not every network-facing call carries the deadline. In the run in which nothing
  is set in the environment and every collaborator succeeds, the connection and the
  fetch carry the 100 second timeout of \<open>main\<close>, and the token exchange carries none:
  the command is built without a context, and no timeout option of \<open>curl\<close> is among
  its arguments.
\<close>

theorem exchange_without_deadline:
  "map deadlineOf (filter networkFacing (calls Map.empty (worldOk ''tok'')))
     = [Some (100 * Second), Some (100 * Second), None]
   \<and> filter (\<lambda>a. a = ''-m'' \<or> a = ''--max-time'' \<or> a = ''--connect-timeout'')
        (concat (map exchangeArgs (calls Map.empty (worldOk ''tok'')))) = []"
  by (simp add: calls_worldOk Args_exchangeCmd exchangeCmd_def Command_def writeOut_def
      tokenEndpoint_def Marshal_def)

subsection \<open>Failure of the fetch\<close>

text \<open>
  C6. If the connection succeeds and the fetch of the document fails, the run consists
  of the connection, the one fetch and the fatal message that carries the error, and
  the process exits with status 1: the fetch is not tried again, nothing is exported to
  the environment, and no token exchange is run.
\<close>

theorem fetch_failure_is_terminal:
  assumes "newJWTSource w mainCtx mainOptions = None"
    and "fetchJWTSVID w mainCtx \<lparr>Audience = audienceOf env, ExtraAudiences = [], Subject = []\<rparr>
           = Inl err"
  shows "main env w =
           ([NewJWTSource mainCtx mainOptions,
             FetchJWTSVID mainCtx \<lparr>Audience = audienceOf env, ExtraAudiences = [], Subject = []\<rparr>,
             Fatalf msgFetch [ArgError err]], 1)
         \<and> length (filter isFetch (calls env w)) = 1
         \<and> filter isExchange (calls env w) = []
         \<and> filter isSetenv (calls env w) = []"
  using main_fetch_error [OF assms] by (simp add: calls_def)

theorem fetch_failure_is_terminal_witness:
  "newJWTSource worldDenied mainCtx mainOptions = None
   \<and> fetchJWTSVID worldDenied mainCtx
        \<lparr>Audience = audienceOf Map.empty, ExtraAudiences = [], Subject = []\<rparr>
       = Inl (Error ''PermissionDenied'')
   \<and> main Map.empty worldDenied =
        ([NewJWTSource mainCtx mainOptions,
          FetchJWTSVID mainCtx
            \<lparr>Audience = ''https://localhost.idyatech.fr:8443/auth/realms/spiffe'',
               ExtraAudiences = [], Subject = []\<rparr>,
          Fatalf msgFetch [ArgError (Error ''PermissionDenied'')]], 1)
   \<and> filter isExchange (calls Map.empty worldDenied) = []"
proof -
  have h1: "newJWTSource worldDenied mainCtx mainOptions = None"
    by (simp add: worldDenied_def)
  have h2: "fetchJWTSVID worldDenied mainCtx
        \<lparr>Audience = audienceOf Map.empty, ExtraAudiences = [], Subject = []\<rparr>
       = Inl (Error ''PermissionDenied'')"
    by (simp add: worldDenied_def)
  from fetch_failure_is_terminal [OF h1 h2] h1 h2 show ?thesis
    by (simp add: audienceOf_unset defaultAudience_def)
qed

subsection \<open>The issuance request\<close>

text \<open>
  C7. Every fetch a run makes is called with the context of \<open>main\<close>, which holds a
  timeout and nothing else, and with parameters whose audience is the value of
  \<open>AUDIENCE\<close> or, if that is empty, the default; the extra audiences are empty and the
  subject is the zero identity. A run makes at most this one request, so the workload
  attaches no identity of its own to it.
\<close>

theorem issuance_request_carries_audience_only:
  assumes "FetchJWTSVID c p \<in> set (calls env w)"
  shows "Audience p = (if Getenv env ''AUDIENCE'' = [] then defaultAudience
                       else Getenv env ''AUDIENCE'')
         \<and> ExtraAudiences p = [] \<and> Subject p = []
         \<and> c = WithTimeout Background (100 * Second)
         \<and> filter isFetch (calls env w) = [FetchJWTSVID c p]"
proof -
  from fetch_is_audience_request [OF assms]
  have c: "c = mainCtx"
    and p: "p = \<lparr>Audience = audienceOf env, ExtraAudiences = [], Subject = []\<rparr>"
    by simp_all
  have "filter isFetch (calls env w) = [FetchJWTSVID c p]"
  proof (cases "newJWTSource w mainCtx mainOptions")
    case None
    then show ?thesis
      using c p by (simp add: fetches_of_run)
  next
    case (Some err)
    then have "calls env w = [NewJWTSource mainCtx mainOptions, Fatalf msgConnect [ArgError err]]"
      by (simp add: calls_def main_connect_error)
    with assms show ?thesis
      by simp
  qed
  with c p show ?thesis
    by (simp add: audienceOf_def Let_def)
qed

theorem issuance_request_carries_audience_only_witness:
  "FetchJWTSVID mainCtx \<lparr>Audience = ''aud'', ExtraAudiences = [], Subject = []\<rparr>
     \<in> set (calls [''AUDIENCE'' \<mapsto> ''aud''] (worldOk ''tok''))
   \<and> filter isFetch (calls [''AUDIENCE'' \<mapsto> ''aud''] (worldOk ''tok''))
       = [FetchJWTSVID mainCtx \<lparr>Audience = ''aud'', ExtraAudiences = [], Subject = []\<rparr>]"
proof -
  have h: "FetchJWTSVID mainCtx \<lparr>Audience = ''aud'', ExtraAudiences = [], Subject = []\<rparr>
     \<in> set (calls [''AUDIENCE'' \<mapsto> ''aud''] (worldOk ''tok''))"
    by (simp add: calls_worldOk audienceOf_set)
  from issuance_request_carries_audience_only [OF h] h show ?thesis
    by simp
qed

text \<open>The command of the exchange, written out, and the exchanges of a run.\<close>

lemma exchangeCmd_explicit:
  "exchangeCmd svid =
     \<lparr>Args =
        [''curl'', ''-X'', ''POST'',
         ''-H'', ''Content-Type:application/x-www-form-urlencoded'',
         ''-d'', ''grant_type=client_credentials'',
         ''-d'',
         ''client_assertion_type=urn:ietf:params:oauth:client-assertion-type:jwt-spiffe'',
         ''-d'', ''client_assertion='' @ token svid,
         ''-k'', ''-v'', ''-w'',
         [CHR 0x0A] @ ''HTTP Status: %{http_code}'' @ [CHR 0x0A],
         ''https://keycloak:8443/auth/realms/spiffe/protocol/openid-connect/token''],
      ctx = None\<rparr>"
  by (simp add: exchangeCmd_def Command_def Marshal_def writeOut_def tokenEndpoint_def)

lemma exchanges_explicit:
  assumes "newJWTSource w mainCtx mainOptions = None"
  shows
    "filter isExchange (calls env w) =
       (case fetchJWTSVID w mainCtx
               \<lparr>Audience = audienceOf env, ExtraAudiences = [], Subject = []\<rparr> of
          Inl err \<Rightarrow> []
        | Inr svid \<Rightarrow>
            [CombinedOutput
               \<lparr>Args =
                  [''curl'', ''-X'', ''POST'',
                   ''-H'', ''Content-Type:application/x-www-form-urlencoded'',
                   ''-d'', ''grant_type=client_credentials'',
                   ''-d'',
                   ''client_assertion_type=urn:ietf:params:oauth:client-assertion-type:jwt-spiffe'',
                   ''-d'', ''client_assertion='' @ token svid,
                   ''-k'', ''-v'', ''-w'',
                   [CHR 0x0A] @ ''HTTP Status: %{http_code}'' @ [CHR 0x0A],
                   ''https://keycloak:8443/auth/realms/spiffe/protocol/openid-connect/token''],
                ctx = None\<rparr>])"
  using exchanges_of_run [OF assms, of env]
  by (simp add: exchangeCmd_explicit split: sum.splits)

text \<open>
  C9. In a run whose connection succeeds: if \<open>AUDIENCE\<close> is not set or is set to the
  empty string, the one fetch asks for the default audience
  \<open>https://localhost.idyatech.fr:8443/auth/realms/spiffe\<close>; if it is set to a value that
  is not empty, the fetch asks for exactly that value. In both cases, if that fetch
  returns a document, the run makes one token exchange, which is the \<open>curl\<close> command
  of \<open>main\<close> with \<open>client_assertion=\<close> followed by the token of that very document,
  and if the fetch fails it makes none.
\<close>

theorem audience_default_or_environment:
  assumes "newJWTSource w mainCtx mainOptions = None"
  shows "(env ''AUDIENCE'' = None \<or> env ''AUDIENCE'' = Some [] \<longrightarrow>
            filter isFetch (calls env w) =
              [FetchJWTSVID mainCtx
                 \<lparr>Audience = ''https://localhost.idyatech.fr:8443/auth/realms/spiffe'',
                    ExtraAudiences = [], Subject = []\<rparr>]
          \<and> filter isExchange (calls env w) =
              (case fetchJWTSVID w mainCtx
                      \<lparr>Audience = ''https://localhost.idyatech.fr:8443/auth/realms/spiffe'', ExtraAudiences = [], Subject = []\<rparr> of
                 Inl err \<Rightarrow> []
               | Inr svid \<Rightarrow>
                   [CombinedOutput
                      \<lparr>Args =
                         [''curl'', ''-X'', ''POST'',
                          ''-H'', ''Content-Type:application/x-www-form-urlencoded'',
                          ''-d'', ''grant_type=client_credentials'',
                          ''-d'',
                          ''client_assertion_type=urn:ietf:params:oauth:client-assertion-type:jwt-spiffe'',
                          ''-d'', ''client_assertion='' @ token svid,
                          ''-k'', ''-v'', ''-w'',
                          [CHR 0x0A] @ ''HTTP Status: %{http_code}'' @ [CHR 0x0A],
                          ''https://keycloak:8443/auth/realms/spiffe/protocol/openid-connect/token''],
                       ctx = None\<rparr>]))
       \<and> (\<forall>v. env ''AUDIENCE'' = Some v \<and> v \<noteq> [] \<longrightarrow>
            filter isFetch (calls env w) =
              [FetchJWTSVID mainCtx \<lparr>Audience = v, ExtraAudiences = [], Subject = []\<rparr>]
          \<and> filter isExchange (calls env w) =
              (case fetchJWTSVID w mainCtx
                      \<lparr>Audience = v, ExtraAudiences = [], Subject = []\<rparr> of
                 Inl err \<Rightarrow> []
               | Inr svid \<Rightarrow>
                   [CombinedOutput
                      \<lparr>Args =
                         [''curl'', ''-X'', ''POST'',
                          ''-H'', ''Content-Type:application/x-www-form-urlencoded'',
                          ''-d'', ''grant_type=client_credentials'',
                          ''-d'',
                          ''client_assertion_type=urn:ietf:params:oauth:client-assertion-type:jwt-spiffe'',
                          ''-d'', ''client_assertion='' @ token svid,
                          ''-k'', ''-v'', ''-w'',
                          [CHR 0x0A] @ ''HTTP Status: %{http_code}'' @ [CHR 0x0A],
                          ''https://keycloak:8443/auth/realms/spiffe/protocol/openid-connect/token''],
                       ctx = None\<rparr>]))"
proof -
  have f: "filter isFetch (calls env w) =
      [FetchJWTSVID mainCtx \<lparr>Audience = audienceOf env, ExtraAudiences = [], Subject = []\<rparr>]"
    using assms by (simp add: fetches_of_run)
  note x = exchanges_explicit [OF assms, of env]
  have d: "env ''AUDIENCE'' = None \<or> env ''AUDIENCE'' = Some [] \<Longrightarrow>
      audienceOf env = ''https://localhost.idyatech.fr:8443/auth/realms/spiffe''"
    by (auto simp: audienceOf_def Getenv_def defaultAudience_def)
  have s: "\<And>v. env ''AUDIENCE'' = Some v \<Longrightarrow> v \<noteq> [] \<Longrightarrow> audienceOf env = v"
    by (simp add: audienceOf_def Getenv_def)
  show ?thesis
  proof (intro conjI impI allI)
    assume "env ''AUDIENCE'' = None \<or> env ''AUDIENCE'' = Some []"
    then have a: "audienceOf env = ''https://localhost.idyatech.fr:8443/auth/realms/spiffe''"
      by (rule d)
    show "filter isFetch (calls env w) =
              [FetchJWTSVID mainCtx
                 \<lparr>Audience = ''https://localhost.idyatech.fr:8443/auth/realms/spiffe'',
                    ExtraAudiences = [], Subject = []\<rparr>]"
      using f unfolding a .
    show "filter isExchange (calls env w) =
            (case fetchJWTSVID w mainCtx
                    \<lparr>Audience = ''https://localhost.idyatech.fr:8443/auth/realms/spiffe'', ExtraAudiences = [], Subject = []\<rparr> of
               Inl err \<Rightarrow> []
             | Inr svid \<Rightarrow>
                 [CombinedOutput
                    \<lparr>Args =
                       [''curl'', ''-X'', ''POST'',
                        ''-H'', ''Content-Type:application/x-www-form-urlencoded'',
                        ''-d'', ''grant_type=client_credentials'',
                        ''-d'',
                        ''client_assertion_type=urn:ietf:params:oauth:client-assertion-type:jwt-spiffe'',
                        ''-d'', ''client_assertion='' @ token svid,
                        ''-k'', ''-v'', ''-w'',
                        [CHR 0x0A] @ ''HTTP Status: %{http_code}'' @ [CHR 0x0A],
                        ''https://keycloak:8443/auth/realms/spiffe/protocol/openid-connect/token''],
                     ctx = None\<rparr>])"
      using x unfolding a .
  next
    fix v
    assume "env ''AUDIENCE'' = Some v \<and> v \<noteq> []"
    then have a: "audienceOf env = v"
      using s by blast
    show "filter isFetch (calls env w) =
              [FetchJWTSVID mainCtx \<lparr>Audience = v, ExtraAudiences = [], Subject = []\<rparr>]"
      using f unfolding a .
    show "filter isExchange (calls env w) =
            (case fetchJWTSVID w mainCtx
                    \<lparr>Audience = v, ExtraAudiences = [], Subject = []\<rparr> of
               Inl err \<Rightarrow> []
             | Inr svid \<Rightarrow>
                 [CombinedOutput
                    \<lparr>Args =
                       [''curl'', ''-X'', ''POST'',
                        ''-H'', ''Content-Type:application/x-www-form-urlencoded'',
                        ''-d'', ''grant_type=client_credentials'',
                        ''-d'',
                        ''client_assertion_type=urn:ietf:params:oauth:client-assertion-type:jwt-spiffe'',
                        ''-d'', ''client_assertion='' @ token svid,
                        ''-k'', ''-v'', ''-w'',
                        [CHR 0x0A] @ ''HTTP Status: %{http_code}'' @ [CHR 0x0A],
                        ''https://keycloak:8443/auth/realms/spiffe/protocol/openid-connect/token''],
                     ctx = None\<rparr>])"
      using x unfolding a .
  qed
qed

theorem audience_default_or_environment_witness:
  "newJWTSource (worldOk ''eyJ.eyJ.sig'') mainCtx mainOptions = None
   \<and> (Map.empty :: environ) ''AUDIENCE'' = None
   \<and> filter isFetch (calls Map.empty (worldOk ''eyJ.eyJ.sig'')) =
       [FetchJWTSVID mainCtx
          \<lparr>Audience = ''https://localhost.idyatech.fr:8443/auth/realms/spiffe'',
             ExtraAudiences = [], Subject = []\<rparr>]
   \<and> [''AUDIENCE'' \<mapsto> ''https://kc.example.org/realms/spiffe''] ''AUDIENCE''
       = Some ''https://kc.example.org/realms/spiffe''
   \<and> filter isFetch
        (calls [''AUDIENCE'' \<mapsto> ''https://kc.example.org/realms/spiffe''] (worldOk ''eyJ.eyJ.sig'')) =
       [FetchJWTSVID mainCtx
          \<lparr>Audience = ''https://kc.example.org/realms/spiffe'',
             ExtraAudiences = [], Subject = []\<rparr>]
   \<and> filter isExchange
        (calls [''AUDIENCE'' \<mapsto> ''https://kc.example.org/realms/spiffe''] (worldOk ''eyJ.eyJ.sig'')) =
       [CombinedOutput
          \<lparr>Args =
             [''curl'', ''-X'', ''POST'',
              ''-H'', ''Content-Type:application/x-www-form-urlencoded'',
              ''-d'', ''grant_type=client_credentials'',
              ''-d'',
              ''client_assertion_type=urn:ietf:params:oauth:client-assertion-type:jwt-spiffe'',
              ''-d'', ''client_assertion='' @ ''eyJ.eyJ.sig'',
              ''-k'', ''-v'', ''-w'',
              [CHR 0x0A] @ ''HTTP Status: %{http_code}'' @ [CHR 0x0A],
              ''https://keycloak:8443/auth/realms/spiffe/protocol/openid-connect/token''],
           ctx = None\<rparr>]"
proof -
  have h: "newJWTSource (worldOk ''eyJ.eyJ.sig'') mainCtx mainOptions = None"
    by (simp add: worldOk_def)
  have e1: "(Map.empty :: environ) ''AUDIENCE'' = None"
    by simp
  have e2: "[''AUDIENCE'' \<mapsto> ''https://kc.example.org/realms/spiffe''] ''AUDIENCE''
       = Some ''https://kc.example.org/realms/spiffe''"
    by simp
  have w: "fetchJWTSVID (worldOk ''eyJ.eyJ.sig'') mainCtx
             \<lparr>Audience = ''https://kc.example.org/realms/spiffe'',
                ExtraAudiences = [], Subject = []\<rparr> = Inr (SVID ''eyJ.eyJ.sig'')"
    by (simp add: worldOk_def)
  note t1 = audience_default_or_environment [OF h, of Map.empty]
  note t2 = audience_default_or_environment
              [OF h, of "[''AUDIENCE'' \<mapsto> ''https://kc.example.org/realms/spiffe'']"]
  have a: "filter isFetch (calls Map.empty (worldOk ''eyJ.eyJ.sig'')) =
       [FetchJWTSVID mainCtx
          \<lparr>Audience = ''https://localhost.idyatech.fr:8443/auth/realms/spiffe'',
             ExtraAudiences = [], Subject = []\<rparr>]"
    using t1 e1 by simp
  have n: "''https://kc.example.org/realms/spiffe'' \<noteq> []"
    by simp
  from t2 have t2': "filter isFetch
        (calls [''AUDIENCE'' \<mapsto> ''https://kc.example.org/realms/spiffe''] (worldOk ''eyJ.eyJ.sig'')) =
       [FetchJWTSVID mainCtx
          \<lparr>Audience = ''https://kc.example.org/realms/spiffe'',
             ExtraAudiences = [], Subject = []\<rparr>]
     \<and> filter isExchange 
          (calls [''AUDIENCE'' \<mapsto> ''https://kc.example.org/realms/spiffe''] (worldOk ''eyJ.eyJ.sig'')) =
         (case fetchJWTSVID (worldOk ''eyJ.eyJ.sig'') mainCtx
                 \<lparr>Audience = ''https://kc.example.org/realms/spiffe'', ExtraAudiences = [], Subject = []\<rparr> of
            Inl err \<Rightarrow> []
          | Inr svid \<Rightarrow>
              [CombinedOutput
                 \<lparr>Args =
                    [''curl'', ''-X'', ''POST'',
                     ''-H'', ''Content-Type:application/x-www-form-urlencoded'',
                     ''-d'', ''grant_type=client_credentials'',
                     ''-d'',
                     ''client_assertion_type=urn:ietf:params:oauth:client-assertion-type:jwt-spiffe'',
                     ''-d'', ''client_assertion='' @ token svid,
                     ''-k'', ''-v'', ''-w'',
                     [CHR 0x0A] @ ''HTTP Status: %{http_code}'' @ [CHR 0x0A],
                     ''https://keycloak:8443/auth/realms/spiffe/protocol/openid-connect/token''],
                  ctx = None\<rparr>])"
    using e2 n by simp
  from h e1 e2 a t2' w show ?thesis
    by simp
qed

subsection \<open>The socket address\<close>

text \<open>
  C8. Every run makes exactly one connection, and the address it resolves to is the
  constant \<open>unix:///opt/spire/sockets/agent.sock\<close>, which \<open>main\<close> passes as a client
  option. Setting, changing or unsetting \<open>SPIFFE_ENDPOINT_SOCKET\<close> changes neither that
  address nor anything else in the run.
\<close>

theorem socket_address_fixed:
  "map (connectAddress env) (filter isConnect (calls env w))
     = [Some ''unix:///opt/spire/sockets/agent.sock'']
   \<and> map (connectAddress (env(''SPIFFE_ENDPOINT_SOCKET'' := v)))
       (filter isConnect (calls (env(''SPIFFE_ENDPOINT_SOCKET'' := v)) w))
     = [Some ''unix:///opt/spire/sockets/agent.sock'']
   \<and> main (env(''SPIFFE_ENDPOINT_SOCKET'' := v)) w = main env w"
proof -
  have a: "\<And>e. map (connectAddress e) (filter isConnect (calls e w))
             = [Some ''unix:///opt/spire/sockets/agent.sock'']"
    by (simp add: calls_def main_def Let_def endpointAddress_def configuredAddress_def
        clientOptionsOf_def socketPath_def split: option.splits sum.splits prod.splits)
  have "audienceOf (env(''SPIFFE_ENDPOINT_SOCKET'' := v)) = audienceOf env"
    by (simp add: audienceOf_def Getenv_def)
  then have "main (env(''SPIFFE_ENDPOINT_SOCKET'' := v)) w = main env w"
    unfolding main_def by (rule arg_cong)
  with a show ?thesis
    by simp
qed

end
